theory Spec2Isabelle
  imports Main "HOL-Library.AList"
begin

section \<open>JavaScript values as the handlers see them\<close>

text \<open>
  The handlers of \<open>IssueHandler\<close> receive their arguments, and the results of the GraphQL
  client, as plain JavaScript values: the TypeScript annotations are erased at run time,
  and the code itself tests values dynamically (truthiness, \<open>typeof\<close>, \<open>Array.isArray\<close>).
  Values are therefore modelled untyped. Numbers are the integers (the numeric fields of
  the tool schemas are the priority 0..4 and the page size); an object is the list of its
  own properties in insertion order.
\<close>

datatype jsval =
    JUndefined
  | JNull
  | JBool bool
  | JNum int
  | JStr string
  | JArr "jsval list"
  | JObj "(string \<times> jsval) list"

type_synonym jsobj = "(string \<times> jsval) list"

text \<open>The conversion to boolean that \<open>if (v)\<close>, \<open>!v\<close>, \<open>v || d\<close> and \<open>v ? a : b\<close> apply.\<close>

fun truthy :: "jsval \<Rightarrow> bool" where
  "truthy JUndefined = False"
| "truthy JNull = False"
| "truthy (JBool b) = b"
| "truthy (JNum n) = (n \<noteq> 0)"
| "truthy (JStr s) = (s \<noteq> [])"
| "truthy (JArr xs) = True"
| "truthy (JObj kvs) = True"

text \<open>\<open>typeof v === "number"\<close> and \<open>Array.isArray(v)\<close>.\<close>

fun isNumber :: "jsval \<Rightarrow> bool" where
  "isNumber (JNum n) = True"
| "isNumber v = False"

fun isArray :: "jsval \<Rightarrow> bool" where
  "isArray (JArr xs) = True"
| "isArray v = False"

text \<open>
  \<open>propOf v k\<close> is the optional-chaining read \<open>v?.k\<close>: \<open>undefined\<close> on \<open>undefined\<close> and
  \<open>null\<close>, the own property of an object (\<open>undefined\<close> when there is none), the
  \<open>length\<close> of an array or a string. It is used for the property names the handlers
  read, none of which is an index or a name inherited from a prototype.
\<close>

fun propOf :: "jsval \<Rightarrow> string \<Rightarrow> jsval" where
  "propOf (JObj kvs) k = (case map_of kvs k of Some v \<Rightarrow> v | None \<Rightarrow> JUndefined)"
| "propOf (JArr xs) k = (if k = ''length'' then JNum (int (length xs)) else JUndefined)"
| "propOf (JStr s) k = (if k = ''length'' then JNum (int (length s)) else JUndefined)"
| "propOf v k = JUndefined"

text \<open>\<open>arg args k\<close> is \<open>args.k\<close> for the argument object of a handler.\<close>

definition arg :: "jsobj \<Rightarrow> string \<Rightarrow> jsval" where
  "arg args k = propOf (JObj args) k"

subsection \<open>Strings\<close>

text \<open>\<open>parts.join(sep)\<close> on strings.\<close>

fun join :: "string \<Rightarrow> string list \<Rightarrow> string" where
  "join sep [] = []"
| "join sep [x] = x"
| "join sep (x # y # ys) = x @ sep @ join sep (y # ys)"

text \<open>
  The decimal rendering of a number in a template literal: \<open>digit\<close> is the character of
  one decimal digit, \<open>decimal\<close> the digits of a natural number without leading zeros,
  \<open>num_str\<close> adds the sign. (JavaScript prints an integer this way up to 21 digits; the
  numbers the handlers print are array lengths.)
\<close>

definition digit :: "nat \<Rightarrow> char" where
  "digit d = ''0123456789'' ! d"

fun decimal :: "nat \<Rightarrow> string" where
  "decimal n =
     (if 10 \<le> n then decimal (n div 10) @ [digit (n mod 10)] else [digit n])"

declare decimal.simps [simp del]

definition num_str :: "int \<Rightarrow> string" where
  "num_str i = (if 0 \<le> i then decimal (nat i) else CHR ''-'' # decimal (nat (- i)))"

text \<open>
  \<open>to_str v\<close> is the string a template literal \<open>`${v}`\<close> inserts; \<open>elem_str\<close> is the
  rendering of one element by \<open>Array.prototype.join\<close>, which prints \<open>undefined\<close> and
  \<open>null\<close> as the empty string.
\<close>

fun to_str :: "jsval \<Rightarrow> string" and elem_str :: "jsval \<Rightarrow> string" where
  "to_str JUndefined = ''undefined''"
| "to_str JNull = ''null''"
| "to_str (JBool b) = (if b then ''true'' else ''false'')"
| "to_str (JNum n) = num_str n"
| "to_str (JStr s) = s"
| "to_str (JArr xs) = join '','' (map elem_str xs)"
| "to_str (JObj kvs) = ''[object Object]''"
| "elem_str JUndefined = []"
| "elem_str JNull = []"
| "elem_str v = to_str v"

text \<open>\<open>xs.join(sep)\<close> on an array of values.\<close>

definition array_join :: "string \<Rightarrow> jsval list \<Rightarrow> string" where
  "array_join sep xs = join sep (map elem_str xs)"

section \<open>Errors, responses and the remote client\<close>

text \<open>
  What a handler can throw. \<open>Error msg\<close> is \<open>new Error(msg)\<close>; \<open>TypeError\<close> is what the
  engine throws on a property read of \<open>undefined\<close> or \<open>null\<close> and on a call of a value
  that is not a function. The other three are the conditions of the specification's
  error taxonomy: authentication errors, validation errors naming the missing fields,
  and the operation-failed condition naming the operation (with the error it wraps).
\<close>

datatype exn =
    Error string
  | TypeError
  | AuthError
  | ValidationError "string list"
  | OperationFailed string exn

text \<open>The strict read \<open>v.k\<close>, which throws on \<open>undefined\<close> and \<open>null\<close>.\<close>

fun getp :: "jsval \<Rightarrow> string \<Rightarrow> exn + jsval" where
  "getp JUndefined k = Inl TypeError"
| "getp JNull k = Inl TypeError"
| "getp v k = Inr (propOf v k)"

text \<open>Sequencing of steps that may throw.\<close>

definition and_then :: "exn + 'a \<Rightarrow> ('a \<Rightarrow> exn + 'b) \<Rightarrow> exn + 'b" where
  "and_then m f = (case m of Inl e \<Rightarrow> Inl e | Inr v \<Rightarrow> f v)"

fun mapM :: "('a \<Rightarrow> exn + 'b) \<Rightarrow> 'a list \<Rightarrow> exn + 'b list" where
  "mapM f [] = Inr []"
| "mapM f (x # xs) = and_then (f x) (\<lambda>y. and_then (mapM f xs) (\<lambda>ys. Inr (y # ys)))"

text \<open>
  A call of a method of \<open>LinearGraphQLClient\<close> with its arguments. The client is the
  remote service seen from the handler: it answers a call with a result or rejects.
\<close>

datatype remote_call =
    createIssue jsval
  | createIssues jsval
  | updateIssues jsval jsval
  | searchIssues jsval jsval jsval jsval
  | deleteIssue jsval
  | deleteIssues jsval

type_synonym LinearGraphQLClient = "remote_call \<Rightarrow> exn + jsval"

text \<open>
  The response of a tool: a text (narrative mode) or a structured document
  (structured mode).
\<close>

datatype BaseToolResponse = TextResponse string | JsonResponse jsval

text \<open>
  The handler object: \<open>authenticated\<close> says whether the \<open>LinearAuth\<close> it was built with
  holds valid credentials, \<open>graphqlClient\<close> is the optional client of the constructor.
\<close>

record IssueHandler =
  authenticated :: bool
  graphqlClient :: "LinearGraphQLClient option"

type_synonym outcome = "remote_call list \<times> (exn + BaseToolResponse)"

text \<open>
  The outcome of a handler is the list of the remote calls it made, in order, and what it
  returned or threw. \<open>attempt\<close> runs a step that makes no remote call; \<open>invoke\<close> awaits
  one call of the client and hands its result to the rest of the handler.
\<close>

definition attempt :: "exn + 'a \<Rightarrow> ('a \<Rightarrow> outcome) \<Rightarrow> outcome" where
  "attempt m f = (case m of Inl e \<Rightarrow> ([], Inl e) | Inr v \<Rightarrow> f v)"

definition invoke ::
  "LinearGraphQLClient \<Rightarrow> remote_call \<Rightarrow> (jsval \<Rightarrow> exn + BaseToolResponse) \<Rightarrow> outcome" where
  "invoke client call k = ([call], and_then (client call) k)"

text \<open>\<open>a || b\<close>.\<close>

definition js_or :: "jsval \<Rightarrow> jsval \<Rightarrow> jsval" where
  "js_or a b = (if truthy a then a else b)"

section \<open>The base handler\<close>

text \<open>
  Modelled from the spec: \<open>BaseHandler.verifyAuth\<close> (base.handler.ts is not among the
  sources). "A capability check: is there a valid authenticated client?", which
  "either yields a ready-to-use client handle or signals an error":
  \<open>verifyAuth() -> ClientHandle | fails(AuthError)\<close>.
\<close>

definition verifyAuth :: "IssueHandler \<Rightarrow> exn + LinearGraphQLClient" where
  "verifyAuth this =
     (if authenticated this
      then (case graphqlClient this of Some client \<Rightarrow> Inr client | None \<Rightarrow> Inl AuthError)
      else Inl AuthError)"

text \<open>
  Modelled from the spec: \<open>BaseHandler.validateRequiredParams\<close> (not among the sources).
  "Missing required field -> validation failure naming the missing field"; the check is
  the "presence of required fields".
\<close>

definition validateRequiredParams :: "jsobj \<Rightarrow> string list \<Rightarrow> exn + unit" where
  "validateRequiredParams args required =
     (let missing = filter (\<lambda>param. arg args param = JUndefined) required
      in if missing = [] then Inr () else Inl (ValidationError missing))"

text \<open>
  Modelled from the spec: \<open>BaseHandler.createResponse\<close> and
  \<open>BaseHandler.createJsonResponse\<close> (not among the sources). Narrative mode returns the
  text summary; structured mode "passes the remote result through unchanged as a
  structured document; no reformatting".
\<close>

definition createResponse :: "string \<Rightarrow> BaseToolResponse" where
  "createResponse text = TextResponse text"

definition createJsonResponse :: "jsval \<Rightarrow> BaseToolResponse" where
  "createJsonResponse data = JsonResponse data"

text \<open>
  Modelled from the spec: \<open>BaseHandler.handleError\<close> (not among the sources).
  "Validation and auth errors are raised immediately"; every other failure is "caught at
  the handler boundary and re-raised as a named, operation-specific failure", the
  "generic operation-failed condition naming the operation". The handlers have no
  \<open>return\<close> after the call of \<open>handleError\<close> in their \<open>catch\<close> block, so it always
  throws.
\<close>

definition handleError :: "exn \<Rightarrow> string \<Rightarrow> exn" where
  "handleError error operation =
     (case error of
        AuthError \<Rightarrow> AuthError
      | ValidationError missing \<Rightarrow> ValidationError missing
      | _ \<Rightarrow> OperationFailed operation error)"

text \<open>\<open>try { body } catch (error) { this.handleError(error, operation) }\<close>.\<close>

definition try_catch :: "string \<Rightarrow> outcome \<Rightarrow> outcome" where
  "try_catch operation body =
     (case body of
        (calls, Inl error) \<Rightarrow> (calls, Inl (handleError error operation))
      | (calls, Inr response) \<Rightarrow> (calls, Inr response))"

section \<open>The issue handlers\<close>

subsection \<open>\<open>handleCreateIssue\<close>\<close>

text \<open>What the handler does with the result of \<open>client.createIssue(args)\<close>.\<close>

definition createIssue_response :: "jsval \<Rightarrow> exn + BaseToolResponse" where
  "createIssue_response result =
     and_then (getp result ''issueCreate'') (\<lambda>issueCreate.
     and_then (getp issueCreate ''success'') (\<lambda>success.
       if \<not> truthy success \<or> \<not> truthy (propOf issueCreate ''issue'')
       then Inl (Error ''Failed to create issue'')
       else
         let issue = propOf issueCreate ''issue'' in
         Inr (createResponse
           (''Successfully created issue\<newline>'' @
            ''Issue: '' @ to_str (propOf issue ''identifier'') @ ''\<newline>'' @
            ''Title: '' @ to_str (propOf issue ''title'') @ ''\<newline>'' @
            ''URL: '' @ to_str (propOf issue ''url'') @ ''\<newline>'' @
            ''Project: '' @
              (if truthy (propOf issue ''project'')
               then to_str (propOf (propOf issue ''project'') ''name'')
               else ''None'')))))"

definition handleCreateIssue :: "IssueHandler \<Rightarrow> jsobj \<Rightarrow> outcome" where
  "handleCreateIssue this args =
     try_catch ''create issue''
       (attempt (verifyAuth this) (\<lambda>client.
        attempt (validateRequiredParams args [''title'', ''description'', ''teamId'']) (\<lambda>_.
        invoke client (createIssue (JObj args)) createIssue_response)))"

subsection \<open>\<open>handleCreateIssues\<close>\<close>

definition createIssues_line :: "jsval \<Rightarrow> exn + string" where
  "createIssues_line issue =
     and_then (getp issue ''identifier'') (\<lambda>identifier.
       Inr (''- '' @ to_str identifier @ '': '' @ to_str (propOf issue ''title'') @
            ''\<newline>  URL: '' @ to_str (propOf issue ''url'')))"

text \<open>
  \<open>createdIssues.length\<close> throws on \<open>undefined\<close> and \<open>null\<close>, and
  \<open>createdIssues.map(...)\<close> throws on every other value that is not an array, so the
  template is only built for an array.
\<close>

definition createIssues_response :: "jsval \<Rightarrow> exn + BaseToolResponse" where
  "createIssues_response result =
     and_then (getp result ''issueCreate'') (\<lambda>issueCreate.
     and_then (getp issueCreate ''success'') (\<lambda>success.
       if \<not> truthy success then Inl (Error ''Failed to create issues'')
       else
         (case propOf issueCreate ''issues'' of
            JArr createdIssues \<Rightarrow>
              and_then (mapM createIssues_line createdIssues) (\<lambda>lines.
                Inr (createResponse
                  (''Successfully created '' @ decimal (length createdIssues) @
                   '' issues:\<newline>'' @ join ''\<newline>'' lines)))
          | _ \<Rightarrow> Inl TypeError)))"

definition handleCreateIssues :: "IssueHandler \<Rightarrow> jsobj \<Rightarrow> outcome" where
  "handleCreateIssues this args =
     try_catch ''create issues''
       (attempt (verifyAuth this) (\<lambda>client.
        attempt (validateRequiredParams args [''issues'']) (\<lambda>_.
        if \<not> isArray (arg args ''issues'')
        then ([], Inl (Error ''Issues parameter must be an array''))
        else invoke client (createIssues (arg args ''issues'')) createIssues_response)))"

subsection \<open>\<open>handleBulkUpdateIssues\<close>\<close>

text \<open>
  \<open>updatedCount\<close> is \<open>args.issueIds.length\<close>: the response holds a single issue, so the
  handler counts the identifiers it was given.
\<close>

definition updateIssues_response :: "jsobj \<Rightarrow> jsval \<Rightarrow> exn + BaseToolResponse" where
  "updateIssues_response args result =
     and_then (getp result ''issueUpdate'') (\<lambda>issueUpdate.
     and_then (getp issueUpdate ''success'') (\<lambda>success.
       if \<not> truthy success then Inl (Error ''Failed to update issues'')
       else
         let updatedCount = propOf (arg args ''issueIds'') ''length'' in
         Inr (createResponse (''Successfully updated '' @ to_str updatedCount @ '' issues''))))"

definition handleBulkUpdateIssues :: "IssueHandler \<Rightarrow> jsobj \<Rightarrow> outcome" where
  "handleBulkUpdateIssues this args =
     try_catch ''update issues''
       (attempt (verifyAuth this) (\<lambda>client.
        attempt (validateRequiredParams args [''issueIds'', ''update'']) (\<lambda>_.
        if \<not> isArray (arg args ''issueIds'')
        then ([], Inl (Error ''IssueIds parameter must be an array''))
        else invoke client (updateIssues (arg args ''issueIds'') (arg args ''update''))
               (updateIssues_response args))))"

subsection \<open>\<open>handleSearchIssues\<close>\<close>

text \<open>
  The local \<open>filter\<close> of \<open>handleSearchIssues\<close>, as it stands when the client is called:
  the object starts empty and each \<open>if\<close> of the source sets one property.
\<close>

definition searchFilter :: "jsobj \<Rightarrow> jsobj" where
  "searchFilter args =
     (let identifier = propOf (arg args ''filter'') ''identifier'';
          projectIdEq = propOf (propOf (propOf (arg args ''filter'') ''project'') ''id'') ''eq'';
          filter0 = [];
          filter1 =
            (if truthy identifier
             then AList.update ''identifier'' (JObj [(''in'', JArr [identifier])]) filter0
             else if truthy (arg args ''query'')
             then AList.update ''search'' (arg args ''query'') filter0
             else filter0);
          filter2 =
            (if truthy projectIdEq
             then AList.update ''project'' (JObj [(''id'', JObj [(''eq'', projectIdEq)])]) filter1
             else filter1);
          filter3 =
            (if truthy (arg args ''teamIds'')
             then AList.update ''team'' (JObj [(''id'', JObj [(''in'', arg args ''teamIds'')])]) filter2
             else filter2);
          filter4 =
            (if truthy (arg args ''assigneeIds'')
             then AList.update ''assignee''
                    (JObj [(''id'', JObj [(''in'', arg args ''assigneeIds'')])]) filter3
             else filter3);
          filter5 =
            (if truthy (arg args ''states'')
             then AList.update ''state'' (JObj [(''name'', JObj [(''in'', arg args ''states'')])]) filter4
             else filter4);
          filter6 =
            (if isNumber (arg args ''priority'')
             then AList.update ''priority'' (JObj [(''eq'', arg args ''priority'')]) filter5
             else filter5)
      in filter6)"

text \<open>The call \<open>client.searchIssues(filter, first || 50, after, orderBy || "updatedAt")\<close>.\<close>

definition searchIssues_call :: "jsobj \<Rightarrow> remote_call" where
  "searchIssues_call args =
     searchIssues (JObj (searchFilter args))
       (js_or (arg args ''first'') (JNum 50))
       (arg args ''after'')
       (js_or (arg args ''orderBy'') (JStr ''updatedAt''))"

definition handleSearchIssues :: "IssueHandler \<Rightarrow> jsobj \<Rightarrow> outcome" where
  "handleSearchIssues this args =
     try_catch ''search issues''
       (attempt (verifyAuth this) (\<lambda>client.
        invoke client (searchIssues_call args) (\<lambda>result. Inr (createJsonResponse result))))"

subsection \<open>\<open>handleSearchIssuesByIdentifier\<close>\<close>

definition identifier_line :: "jsval \<Rightarrow> exn + string" where
  "identifier_line issue =
     and_then (getp issue ''identifier'') (\<lambda>identifier.
       Inr (to_str identifier @ '': '' @ to_str (propOf issue ''title'') @ ''\<newline>'' @
            (if truthy (propOf issue ''state'')
             then ''Status: '' @ to_str (propOf (propOf issue ''state'') ''name'') @ ''\<newline>''
             else '''') @
            ''URL: '' @ to_str (propOf issue ''url'') @ ''\<newline>'' @
            (if truthy (propOf issue ''assignee'')
             then ''Assignee: '' @ to_str (propOf (propOf issue ''assignee'') ''name'') @ ''\<newline>''
             else '''') @
            (if truthy (propOf issue ''project'')
             then ''Project: '' @ to_str (propOf (propOf issue ''project'') ''name'') @ ''\<newline>''
             else '''')))"

text \<open>
  \<open>identifiers\<close> are the elements of \<open>args.identifiers\<close>, an array when the result is
  formatted. A value of \<open>result.issues.nodes\<close> with a truthy \<open>length\<close> that is not an
  array has no \<open>map\<close> method, and the call throws.
\<close>

definition searchByIdentifier_response :: "jsval list \<Rightarrow> jsval \<Rightarrow> exn + BaseToolResponse" where
  "searchByIdentifier_response identifiers result =
     and_then (getp result ''issues'') (\<lambda>issues.
     and_then (getp issues ''nodes'') (\<lambda>nodes.
     and_then (getp nodes ''length'') (\<lambda>len.
       if \<not> truthy len
       then Inr (createResponse
              (''No issues found with identifiers: '' @ array_join '', '' identifiers))
       else
         (case nodes of
            JArr found \<Rightarrow>
              and_then (mapM identifier_line found) (\<lambda>lines.
                Inr (createResponse (join ''\<newline>'' lines)))
          | _ \<Rightarrow> Inl TypeError))))"

text \<open>The \<open>case\<close> on \<open>args.identifiers\<close> is the test \<open>Array.isArray(args.identifiers)\<close>.\<close>

definition handleSearchIssuesByIdentifier :: "IssueHandler \<Rightarrow> jsobj \<Rightarrow> outcome" where
  "handleSearchIssuesByIdentifier this args =
     try_catch ''search issues by identifier''
       (attempt (verifyAuth this) (\<lambda>client.
        attempt (validateRequiredParams args [''identifiers'']) (\<lambda>_.
        (case arg args ''identifiers'' of
           JArr identifiers \<Rightarrow>
             invoke client
               (searchIssues (JObj [(''identifier'', JObj [(''in'', JArr identifiers)])])
                  (JNum 100) JUndefined (JStr ''updatedAt''))
               (searchByIdentifier_response identifiers)
         | _ \<Rightarrow> ([], Inl (Error ''Identifiers parameter must be an array''))))))"

subsection \<open>\<open>handleDeleteIssue\<close>\<close>

definition deleteIssue_response :: "jsobj \<Rightarrow> jsval \<Rightarrow> exn + BaseToolResponse" where
  "deleteIssue_response args result =
     and_then (getp result ''issueDelete'') (\<lambda>issueDelete.
     and_then (getp issueDelete ''success'') (\<lambda>success.
       if \<not> truthy success then Inl (Error ''Failed to delete issue'')
       else Inr (createResponse (''Successfully deleted issue '' @ to_str (arg args ''id'')))))"

definition handleDeleteIssue :: "IssueHandler \<Rightarrow> jsobj \<Rightarrow> outcome" where
  "handleDeleteIssue this args =
     try_catch ''delete issue''
       (attempt (verifyAuth this) (\<lambda>client.
        attempt (validateRequiredParams args [''id'']) (\<lambda>_.
        invoke client (deleteIssue (arg args ''id'')) (deleteIssue_response args))))"

subsection \<open>\<open>handleDeleteIssues\<close>\<close>

definition deleteIssues_response :: "jsval list \<Rightarrow> jsval \<Rightarrow> exn + BaseToolResponse" where
  "deleteIssues_response ids result =
     and_then (getp result ''issueDelete'') (\<lambda>issueDelete.
     and_then (getp issueDelete ''success'') (\<lambda>success.
       if \<not> truthy success then Inl (Error ''Failed to delete issues'')
       else Inr (createResponse
              (''Successfully deleted '' @ decimal (length ids) @ '' issues: '' @
               array_join '', '' ids))))"

text \<open>The \<open>case\<close> on \<open>args.ids\<close> is the test \<open>Array.isArray(args.ids)\<close>.\<close>

definition handleDeleteIssues :: "IssueHandler \<Rightarrow> jsobj \<Rightarrow> outcome" where
  "handleDeleteIssues this args =
     try_catch ''delete issues''
       (attempt (verifyAuth this) (\<lambda>client.
        attempt (validateRequiredParams args [''ids'']) (\<lambda>_.
        (case arg args ''ids'' of
           JArr ids \<Rightarrow> invoke client (deleteIssues (JArr ids)) (deleteIssues_response ids)
         | _ \<Rightarrow> ([], Inl (Error ''Ids parameter must be an array''))))))"

subsection \<open>A handler for examples\<close>

text \<open>
  \<open>answering result\<close> is an authenticated handler whose client answers every call with
  \<open>result\<close>; the examples below run the handlers on it.
\<close>

abbreviation answering :: "jsval \<Rightarrow> IssueHandler" where
  "answering result \<equiv> \<lparr>authenticated = True, graphqlClient = Some (\<lambda>call. Inr result)\<rparr>"

section \<open>Basic facts\<close>

lemma getp_cases: "getp v k = Inl TypeError \<or> getp v k = Inr (propOf v k)"
  by (cases v) auto

lemma num_str_nat: "num_str (int n) = decimal n"
  by (simp add: num_str_def)

lemma array_join_strings: "array_join sep (map JStr xs) = join sep xs"
  unfolding array_join_def by (induction sep xs rule: join.induct) simp_all

lemma verifyAuth_absent:
  "\<not> authenticated this \<or> graphqlClient this = None \<Longrightarrow> verifyAuth this = Inl AuthError"
  by (auto simp: verifyAuth_def)

lemma fst_try_catch: "fst (try_catch operation body) = fst body"
  by (simp add: try_catch_def split: prod.splits sum.splits)

lemma snd_try_catch:
  "snd (try_catch operation body) =
     (case snd body of Inl e \<Rightarrow> Inl (handleError e operation) | Inr r \<Rightarrow> Inr r)"
  by (simp add: try_catch_def split: prod.splits sum.splits)

lemma try_catch_auth: "try_catch operation (attempt (Inl AuthError) f) = ([], Inl AuthError)"
  by (simp add: try_catch_def attempt_def handleError_def)

lemma verifyAuth_answering: "verifyAuth (answering result) = Inr (\<lambda>call. Inr result)"
  by (simp add: verifyAuth_def)

lemma response_success:
  assumes "truthy (propOf (propOf result key) ''success'')"
  shows "getp result key = Inr (propOf result key)"
    and "getp (propOf result key) ''success'' = Inr (propOf (propOf result key) ''success'')"
  using assms by (cases result; cases "propOf result key"; simp)+

subsection \<open>The clauses of the search filter\<close>

lemma map_of_cond_update:
  "map_of (if c then AList.update k v f else f) k' =
     (if c \<and> k = k' then Some v else map_of f k')"
  by (simp add: update_conv')

lemma map_of_searchFilter_identifier:
  "map_of (searchFilter args) ''identifier'' =
     (if truthy (propOf (arg args ''filter'') ''identifier'')
      then Some (JObj [(''in'', JArr [propOf (arg args ''filter'') ''identifier''])])
      else None)"
  unfolding searchFilter_def Let_def
  by (simp only: map_of_cond_update) (simp add: update_conv')

lemma map_of_searchFilter_search:
  "map_of (searchFilter args) ''search'' =
     (if \<not> truthy (propOf (arg args ''filter'') ''identifier'') \<and> truthy (arg args ''query'')
      then Some (arg args ''query'') else None)"
  unfolding searchFilter_def Let_def
  by (simp only: map_of_cond_update) (simp add: update_conv')

lemma map_of_searchFilter_priority:
  "map_of (searchFilter args) ''priority'' =
     (if isNumber (arg args ''priority'')
      then Some (JObj [(''eq'', arg args ''priority'')]) else None)"
  unfolding searchFilter_def Let_def
  by (simp only: map_of_cond_update) simp

lemma handleSearchIssues_auth:
  "verifyAuth this = Inr client \<Longrightarrow>
   handleSearchIssues this args =
     ([searchIssues_call args],
      case client (searchIssues_call args) of
        Inl e \<Rightarrow> Inl (handleError e ''search issues'')
      | Inr result \<Rightarrow> Inr (createJsonResponse result))"
  by (simp add: handleSearchIssues_def attempt_def invoke_def and_then_def try_catch_def
      split: sum.splits)

section \<open>The search filter\<close>

text \<open>
  C1 (as amended). The identifier branch of \<open>handleSearchIssues\<close> is guarded by the
  truthiness of \<open>args.filter?.identifier\<close>. For every search input whose identifier
  filter is truthy (a non-empty string, for one), whatever the free-text query, the
  filter holds the identifier clause \<open>{in: [identifier]}\<close>, the single identifier wrapped
  in a list, and holds no search clause. An identifier that is present but empty is
  treated as absent, and the query is then applied.
\<close>

theorem search_identifier_supersedes_query:
  assumes "truthy (propOf (arg args ''filter'') ''identifier'')"
  shows "map_of (searchFilter args) ''identifier'' =
           Some (JObj [(''in'', JArr [propOf (arg args ''filter'') ''identifier''])])
         \<and> map_of (searchFilter args) ''search'' = None"
  using assms by (simp add: map_of_searchFilter_identifier map_of_searchFilter_search)

theorem search_identifier_supersedes_query_witness:
  "truthy (propOf (arg [(''filter'', JObj [(''identifier'', JStr ''ENG-123'')]),
                        (''query'', JStr ''login bug'')] ''filter'') ''identifier'')
   \<and> searchFilter [(''filter'', JObj [(''identifier'', JStr ''ENG-123'')]),
                    (''query'', JStr ''login bug'')]
       = [(''identifier'', JObj [(''in'', JArr [JStr ''ENG-123''])])]
   \<and> map_of (searchFilter [(''filter'', JObj [(''identifier'', JStr ''ENG-123'')]),
                            (''query'', JStr ''login bug'')]) ''search'' = None"
  using search_identifier_supersedes_query
          [of "[(''filter'', JObj [(''identifier'', JStr ''ENG-123'')]),
                (''query'', JStr ''login bug'')]"]
  by (simp add: searchFilter_def arg_def)

text \<open>
  The claim as first stated fails on the input
  \<open>{filter: {identifier: ""}, query: "login bug"}\<close>, which holds both an identifier
  filter and a query: the filter built is \<open>{search: "login bug"}\<close>, with the search
  clause and without an identifier clause.
\<close>

theorem search_empty_identifier_counterexample:
  "searchFilter [(''filter'', JObj [(''identifier'', JStr '''')]), (''query'', JStr ''login bug'')]
     = [(''search'', JStr ''login bug'')]"
  by (simp add: searchFilter_def arg_def)

text \<open>
  C4. The priority clause is guarded by \<open>typeof args.priority === "number"\<close>, not by
  truthiness: for every search input whose priority is the number 0 the filter holds
  \<open>priority = {eq: 0}\<close>, while an input without a priority gets no priority clause.
\<close>

theorem search_priority_zero_kept:
  "(arg args ''priority'' = JNum 0 \<longrightarrow>
      map_of (searchFilter args) ''priority'' = Some (JObj [(''eq'', JNum 0)]))
   \<and> (arg args ''priority'' = JUndefined \<longrightarrow>
      map_of (searchFilter args) ''priority'' = None)"
  by (simp add: map_of_searchFilter_priority)

theorem search_priority_zero_kept_witness:
  "arg [(''priority'', JNum 0)] ''priority'' = JNum 0
   \<and> searchFilter [(''priority'', JNum 0)] = [(''priority'', JObj [(''eq'', JNum 0)])]
   \<and> arg [] ''priority'' = JUndefined
   \<and> map_of (searchFilter []) ''priority'' = None"
  using search_priority_zero_kept [of "[(''priority'', JNum 0)]"]
    search_priority_zero_kept [of "[]"]
  by (simp add: searchFilter_def arg_def)

text \<open>
  C10. The query branch is guarded by the truthiness of \<open>args.query\<close>: for every search
  input without an identifier filter whose query is the empty string, the filter holds no
  search clause, the empty query being treated as absent; a priority of 0 in the same
  input is kept all the same.
\<close>

theorem search_empty_query_dropped:
  assumes "propOf (arg args ''filter'') ''identifier'' = JUndefined"
    and "arg args ''query'' = JStr ''''"
  shows "map_of (searchFilter args) ''search'' = None
       \<and> (arg args ''priority'' = JNum 0 \<longrightarrow>
            map_of (searchFilter args) ''priority'' = Some (JObj [(''eq'', JNum 0)]))"
  using assms by (simp add: map_of_searchFilter_search map_of_searchFilter_priority)

theorem search_empty_query_dropped_witness:
  "propOf (arg [(''query'', JStr ''''), (''priority'', JNum 0)] ''filter'') ''identifier''
     = JUndefined
   \<and> arg [(''query'', JStr ''''), (''priority'', JNum 0)] ''query'' = JStr ''''
   \<and> arg [(''query'', JStr ''''), (''priority'', JNum 0)] ''priority'' = JNum 0
   \<and> searchFilter [(''query'', JStr ''''), (''priority'', JNum 0)]
       = [(''priority'', JObj [(''eq'', JNum 0)])]"
  using search_empty_query_dropped [of "[(''query'', JStr ''''), (''priority'', JNum 0)]"]
  by (simp add: searchFilter_def arg_def)

section \<open>The search handler\<close>

text \<open>
  C5. For every search-issues invocation that reaches the remote service and gets a
  result, the handler returns that result as the structured response, unchanged: whatever
  fields the remote payload has, pagination cursors included, are the fields of the
  response.
\<close>

theorem search_result_passthrough:
  assumes "verifyAuth this = Inr client"
    and "client (searchIssues_call args) = Inr result"
  shows "snd (handleSearchIssues this args) = Inr (JsonResponse result)"
  using assms by (simp add: handleSearchIssues_auth createJsonResponse_def)

theorem search_result_passthrough_witness:
  "verifyAuth (answering
       (JObj [(''issues'', JObj
          [(''nodes'', JArr [JObj [(''identifier'', JStr ''ENG-1'')]]),
           (''pageInfo'', JObj [(''hasNextPage'', JBool True), (''endCursor'', JStr ''c1'')])])]))
     = Inr (\<lambda>call. Inr
       (JObj [(''issues'', JObj
          [(''nodes'', JArr [JObj [(''identifier'', JStr ''ENG-1'')]]),
           (''pageInfo'', JObj [(''hasNextPage'', JBool True), (''endCursor'', JStr ''c1'')])])]))
   \<and> snd (handleSearchIssues (answering
       (JObj [(''issues'', JObj
          [(''nodes'', JArr [JObj [(''identifier'', JStr ''ENG-1'')]]),
           (''pageInfo'', JObj [(''hasNextPage'', JBool True), (''endCursor'', JStr ''c1'')])])]))
       [(''query'', JStr ''login bug'')])
     = Inr (JsonResponse
       (JObj [(''issues'', JObj
          [(''nodes'', JArr [JObj [(''identifier'', JStr ''ENG-1'')]]),
           (''pageInfo'', JObj [(''hasNextPage'', JBool True), (''endCursor'', JStr ''c1'')])])]))"
  using search_result_passthrough
    [of "answering
       (JObj [(''issues'', JObj
          [(''nodes'', JArr [JObj [(''identifier'', JStr ''ENG-1'')]]),
           (''pageInfo'', JObj [(''hasNextPage'', JBool True), (''endCursor'', JStr ''c1'')])])])"
        "\<lambda>call. Inr
       (JObj [(''issues'', JObj
          [(''nodes'', JArr [JObj [(''identifier'', JStr ''ENG-1'')]]),
           (''pageInfo'', JObj [(''hasNextPage'', JBool True), (''endCursor'', JStr ''c1'')])])])"
        "[(''query'', JStr ''login bug'')]"]
  by (simp add: verifyAuth_def)

text \<open>
  C6. For every search-issues invocation of an authenticated handler exactly one remote
  call is made; when \<open>first\<close> is absent its page size is 50, and when \<open>orderBy\<close> is
  absent its ordering field is \<open>"updatedAt"\<close>.
\<close>

theorem search_pagination_defaults:
  assumes "verifyAuth this = Inr client"
  shows "(arg args ''first'' = JUndefined \<longrightarrow>
            fst (handleSearchIssues this args) =
              [searchIssues (JObj (searchFilter args)) (JNum 50) (arg args ''after'')
                 (js_or (arg args ''orderBy'') (JStr ''updatedAt''))])
       \<and> (arg args ''orderBy'' = JUndefined \<longrightarrow>
            fst (handleSearchIssues this args) =
              [searchIssues (JObj (searchFilter args)) (js_or (arg args ''first'') (JNum 50))
                 (arg args ''after'') (JStr ''updatedAt'')])"
  using assms by (simp add: handleSearchIssues_auth searchIssues_call_def js_or_def)

theorem search_pagination_defaults_witness:
  "verifyAuth (answering (JObj [])) = Inr (\<lambda>call. Inr (JObj []))
   \<and> arg [(''query'', JStr ''login bug'')] ''first'' = JUndefined
   \<and> arg [(''query'', JStr ''login bug'')] ''orderBy'' = JUndefined
   \<and> fst (handleSearchIssues (answering (JObj [])) [(''query'', JStr ''login bug'')])
       = [searchIssues (JObj [(''search'', JStr ''login bug'')]) (JNum 50) JUndefined
            (JStr ''updatedAt'')]"
  using search_pagination_defaults
    [of "answering (JObj [])" "\<lambda>call. Inr (JObj [])" "[(''query'', JStr ''login bug'')]"]
  by (simp add: verifyAuth_def arg_def searchFilter_def js_or_def)

section \<open>The authentication gate\<close>

text \<open>
  C7. Every handler calls \<open>verifyAuth\<close> first. When authentication is absent, each of the
  seven handlers, on every input, fails with the authentication error and has made no
  remote call; since the outcome does not depend on the arguments, no validation of them
  is reached (arguments lacking every required field give the authentication error too,
  not a validation error).
\<close>

theorem auth_failure_precedes_all_work:
  assumes "\<not> authenticated this \<or> graphqlClient this = None"
  shows "handleCreateIssue this args = ([], Inl AuthError)
       \<and> handleCreateIssues this args = ([], Inl AuthError)
       \<and> handleBulkUpdateIssues this args = ([], Inl AuthError)
       \<and> handleSearchIssues this args = ([], Inl AuthError)
       \<and> handleSearchIssuesByIdentifier this args = ([], Inl AuthError)
       \<and> handleDeleteIssue this args = ([], Inl AuthError)
       \<and> handleDeleteIssues this args = ([], Inl AuthError)"
  unfolding handleCreateIssue_def handleCreateIssues_def handleBulkUpdateIssues_def
    handleSearchIssues_def handleSearchIssuesByIdentifier_def handleDeleteIssue_def
    handleDeleteIssues_def verifyAuth_absent [OF assms]
  by (simp only: try_catch_auth simp_thms)

theorem auth_failure_precedes_all_work_witness:
  "authenticated \<lparr>authenticated = False, graphqlClient = None\<rparr> = False
   \<and> verifyAuth \<lparr>authenticated = False, graphqlClient = None\<rparr> = Inl AuthError
   \<and> validateRequiredParams [] [''id''] = Inl (ValidationError [''id''])
   \<and> handleDeleteIssue \<lparr>authenticated = False, graphqlClient = None\<rparr> [] = ([], Inl AuthError)
   \<and> handleCreateIssue \<lparr>authenticated = False, graphqlClient = None\<rparr> [] = ([], Inl AuthError)"
  using auth_failure_precedes_all_work [of "\<lparr>authenticated = False, graphqlClient = None\<rparr>" "[]"]
  by (simp add: validateRequiredParams_def arg_def verifyAuth_def)

section \<open>Narrative responses\<close>

text \<open>
  C3. For every bulk-update invocation that passes the authentication gate and the
  validation with a list of N issue identifiers, and whose remote result has a truthy
  \<open>issueUpdate.success\<close>, the handler returns the text "Successfully updated N issues",
  N being the length of the identifier list in decimal, whatever else the result holds.
\<close>

theorem bulk_update_reports_input_count:
  assumes "verifyAuth this = Inr client"
    and "validateRequiredParams args [''issueIds'', ''update''] = Inr ()"
    and "arg args ''issueIds'' = JArr issueIds"
    and "client (updateIssues (JArr issueIds) (arg args ''update'')) = Inr result"
    and "truthy (propOf (propOf result ''issueUpdate'') ''success'')"
  shows "snd (handleBulkUpdateIssues this args) =
           Inr (TextResponse (''Successfully updated '' @ decimal (length issueIds) @ '' issues''))"
  using assms
  by (simp add: handleBulkUpdateIssues_def attempt_def invoke_def and_then_def snd_try_catch
      updateIssues_response_def response_success createResponse_def num_str_nat)

theorem bulk_update_reports_input_count_witness:
  "verifyAuth (answering (JObj [(''issueUpdate'', JObj [(''success'', JBool True)])]))
     = Inr (\<lambda>call. Inr (JObj [(''issueUpdate'', JObj [(''success'', JBool True)])]))
   \<and> validateRequiredParams
        [(''issueIds'', JArr [JStr ''ENG-1'', JStr ''ENG-2'', JStr ''ENG-3'']),
         (''update'', JObj [(''priority'', JNum 1)])] [''issueIds'', ''update''] = Inr ()
   \<and> snd (handleBulkUpdateIssues
        (answering (JObj [(''issueUpdate'', JObj [(''success'', JBool True)])]))
        [(''issueIds'', JArr [JStr ''ENG-1'', JStr ''ENG-2'', JStr ''ENG-3'']),
         (''update'', JObj [(''priority'', JNum 1)])])
       = Inr (TextResponse ''Successfully updated 3 issues'')"
  using bulk_update_reports_input_count
    [of "answering (JObj [(''issueUpdate'', JObj [(''success'', JBool True)])])"
        "\<lambda>call. Inr (JObj [(''issueUpdate'', JObj [(''success'', JBool True)])])"
        "[(''issueIds'', JArr [JStr ''ENG-1'', JStr ''ENG-2'', JStr ''ENG-3'']),
          (''update'', JObj [(''priority'', JNum 1)])]"
        "[JStr ''ENG-1'', JStr ''ENG-2'', JStr ''ENG-3'']"
        "JObj [(''issueUpdate'', JObj [(''success'', JBool True)])]"]
  by (simp add: verifyAuth_def validateRequiredParams_def arg_def decimal.simps digit_def)

text \<open>
  C8. For every search-by-identifier invocation that passes the gate and the validation
  with a list of identifier strings, and whose remote result has no issue
  (\<open>result.issues.nodes\<close> is the empty array), the handler returns, as a response and not
  as an error, the text "No issues found with identifiers: " followed by the identifiers
  that were queried, in the order supplied, separated by ", ".
\<close>

theorem identifier_search_no_matches:
  assumes "verifyAuth this = Inr client"
    and "validateRequiredParams args [''identifiers''] = Inr ()"
    and "arg args ''identifiers'' = JArr (map JStr identifiers)"
    and "client (searchIssues (JObj [(''identifier'', JObj [(''in'', JArr (map JStr identifiers))])])
                   (JNum 100) JUndefined (JStr ''updatedAt'')) = Inr result"
    and "propOf (propOf result ''issues'') ''nodes'' = JArr []"
  shows "snd (handleSearchIssuesByIdentifier this args) =
           Inr (TextResponse (''No issues found with identifiers: '' @ join '', '' identifiers))"
proof -
  from assms(5) have r: "getp result ''issues'' = Inr (propOf result ''issues'')"
    by (cases result) auto
  from assms(5) have i: "getp (propOf result ''issues'') ''nodes'' = Inr (JArr [])"
    by (cases "propOf result ''issues''") auto
  show ?thesis
    using assms(1-4)
    by (simp add: handleSearchIssuesByIdentifier_def attempt_def invoke_def and_then_def
        snd_try_catch searchByIdentifier_response_def r i createResponse_def array_join_strings)
qed

theorem identifier_search_no_matches_witness:
  "verifyAuth (answering (JObj [(''issues'', JObj [(''nodes'', JArr [])])]))
     = Inr (\<lambda>call. Inr (JObj [(''issues'', JObj [(''nodes'', JArr [])])]))
   \<and> validateRequiredParams [(''identifiers'', JArr [JStr ''MIC-79'', JStr ''MIC-78''])]
        [''identifiers''] = Inr ()
   \<and> handleSearchIssuesByIdentifier
        (answering (JObj [(''issues'', JObj [(''nodes'', JArr [])])]))
        [(''identifiers'', JArr [JStr ''MIC-79'', JStr ''MIC-78''])]
       = ([searchIssues
             (JObj [(''identifier'', JObj [(''in'', JArr [JStr ''MIC-79'', JStr ''MIC-78''])])])
             (JNum 100) JUndefined (JStr ''updatedAt'')],
          Inr (TextResponse ''No issues found with identifiers: MIC-79, MIC-78''))"
  using identifier_search_no_matches
    [of "answering (JObj [(''issues'', JObj [(''nodes'', JArr [])])])"
        "\<lambda>call. Inr (JObj [(''issues'', JObj [(''nodes'', JArr [])])])"
        "[(''identifiers'', JArr [JStr ''MIC-79'', JStr ''MIC-78''])]"
        "[''MIC-79'', ''MIC-78'']"
        "JObj [(''issues'', JObj [(''nodes'', JArr [])])]"]
  by (simp add: verifyAuth_def validateRequiredParams_def arg_def
      handleSearchIssuesByIdentifier_def attempt_def invoke_def and_then_def try_catch_def
      searchByIdentifier_response_def createResponse_def array_join_def)

text \<open>
  C9. For every delete-issue invocation with id "ENG-123" that passes the gate and the
  validation and whose remote result has a truthy \<open>issueDelete.success\<close>, the handler
  returns the text "Successfully deleted issue ENG-123", a confirmation that contains
  "ENG-123".
\<close>

theorem delete_issue_confirms_identifier:
  assumes "verifyAuth this = Inr client"
    and "validateRequiredParams args [''id''] = Inr ()"
    and "arg args ''id'' = JStr ''ENG-123''"
    and "client (deleteIssue (JStr ''ENG-123'')) = Inr result"
    and "truthy (propOf (propOf result ''issueDelete'') ''success'')"
  shows "snd (handleDeleteIssue this args) =
           Inr (TextResponse ''Successfully deleted issue ENG-123'')
       \<and> (\<exists>before after.
            snd (handleDeleteIssue this args) =
              Inr (TextResponse (before @ ''ENG-123'' @ after)))"
proof -
  have eq: "snd (handleDeleteIssue this args) =
              Inr (TextResponse ''Successfully deleted issue ENG-123'')"
    using assms
    by (simp add: handleDeleteIssue_def attempt_def invoke_def and_then_def snd_try_catch
        deleteIssue_response_def response_success createResponse_def)
  have "''Successfully deleted issue ENG-123'' = ''Successfully deleted issue '' @ ''ENG-123'' @ ''''"
    by simp
  with eq show ?thesis by metis
qed

theorem delete_issue_confirms_identifier_witness:
  "verifyAuth (answering (JObj [(''issueDelete'', JObj [(''success'', JBool True)])]))
     = Inr (\<lambda>call. Inr (JObj [(''issueDelete'', JObj [(''success'', JBool True)])]))
   \<and> validateRequiredParams [(''id'', JStr ''ENG-123'')] [''id''] = Inr ()
   \<and> handleDeleteIssue
        (answering (JObj [(''issueDelete'', JObj [(''success'', JBool True)])]))
        [(''id'', JStr ''ENG-123'')]
       = ([deleteIssue (JStr ''ENG-123'')],
          Inr (TextResponse ''Successfully deleted issue ENG-123''))"
  using delete_issue_confirms_identifier
    [of "answering (JObj [(''issueDelete'', JObj [(''success'', JBool True)])])"
        "\<lambda>call. Inr (JObj [(''issueDelete'', JObj [(''success'', JBool True)])])"
        "[(''id'', JStr ''ENG-123'')]"
        "JObj [(''issueDelete'', JObj [(''success'', JBool True)])]"]
  by (simp add: verifyAuth_def validateRequiredParams_def arg_def
      handleDeleteIssue_def attempt_def invoke_def and_then_def try_catch_def
      deleteIssue_response_def createResponse_def)

section \<open>Remote failures\<close>

lemma createIssue_response_fails:
  assumes "\<not> truthy (propOf (propOf result ''issueCreate'') ''success'')
           \<or> \<not> truthy (propOf (propOf result ''issueCreate'') ''issue'')"
  shows "createIssue_response result = Inl TypeError
         \<or> createIssue_response result = Inl (Error ''Failed to create issue'')"
  using assms getp_cases [of result "''issueCreate''"]
    getp_cases [of "propOf result ''issueCreate''" "''success''"]
  by (auto simp: createIssue_response_def and_then_def)

lemma createIssues_response_fails:
  assumes "\<not> truthy (propOf (propOf result ''issueCreate'') ''success'')
           \<or> \<not> isArray (propOf (propOf result ''issueCreate'') ''issues'')"
  shows "createIssues_response result = Inl TypeError
         \<or> createIssues_response result = Inl (Error ''Failed to create issues'')"
  using assms getp_cases [of result "''issueCreate''"]
    getp_cases [of "propOf result ''issueCreate''" "''success''"]
  by (auto simp: createIssues_response_def and_then_def split: jsval.splits if_splits)

lemma updateIssues_response_fails:
  assumes "\<not> truthy (propOf (propOf result ''issueUpdate'') ''success'')"
  shows "updateIssues_response args result = Inl TypeError
         \<or> updateIssues_response args result = Inl (Error ''Failed to update issues'')"
  using assms getp_cases [of result "''issueUpdate''"]
    getp_cases [of "propOf result ''issueUpdate''" "''success''"]
  by (auto simp: updateIssues_response_def and_then_def)

lemma deleteIssue_response_fails:
  assumes "\<not> truthy (propOf (propOf result ''issueDelete'') ''success'')"
  shows "deleteIssue_response args result = Inl TypeError
         \<or> deleteIssue_response args result = Inl (Error ''Failed to delete issue'')"
  using assms getp_cases [of result "''issueDelete''"]
    getp_cases [of "propOf result ''issueDelete''" "''success''"]
  by (auto simp: deleteIssue_response_def and_then_def)

lemma deleteIssues_response_fails:
  assumes "\<not> truthy (propOf (propOf result ''issueDelete'') ''success'')"
  shows "deleteIssues_response ids result = Inl TypeError
         \<or> deleteIssues_response ids result = Inl (Error ''Failed to delete issues'')"
  using assms getp_cases [of result "''issueDelete''"]
    getp_cases [of "propOf result ''issueDelete''" "''success''"]
  by (auto simp: deleteIssues_response_def and_then_def)

text \<open>A body that made the call and whose formatter failed ends in the operation-failed condition.\<close>

lemma invoke_fails:
  assumes "client call = Inr result"
    and "k result = Inl TypeError \<or> k result = Inl (Error msg)"
  shows "\<exists>cause. snd (try_catch operation (invoke client call k)) = Inl (OperationFailed operation cause)"
  using assms by (auto simp: snd_try_catch invoke_def and_then_def handleError_def)

lemma handleCreateIssue_failed:
  assumes "verifyAuth this = Inr client"
    and "fst (handleCreateIssue this args) = [call]"
    and "client call = Inr result"
    and "\<not> truthy (propOf (propOf result ''issueCreate'') ''success'')
         \<or> \<not> truthy (propOf (propOf result ''issueCreate'') ''issue'')"
  shows "\<exists>cause. snd (handleCreateIssue this args) = Inl (OperationFailed ''create issue'' cause)"
proof -
  from assms(1,2) obtain u where
    v: "validateRequiredParams args [''title'', ''description'', ''teamId''] = Inr u"
    and c: "call = createIssue (JObj args)"
    by (auto simp: handleCreateIssue_def fst_try_catch attempt_def invoke_def split: sum.splits)
  show ?thesis
    unfolding handleCreateIssue_def
    using invoke_fails [of client call result "createIssue_response", OF assms(3) createIssue_response_fails [OF assms(4)]]
    by (simp add: assms(1) v c attempt_def)
qed

lemma handleCreateIssues_failed:
  assumes "verifyAuth this = Inr client"
    and "fst (handleCreateIssues this args) = [call]"
    and "client call = Inr result"
    and "\<not> truthy (propOf (propOf result ''issueCreate'') ''success'')
         \<or> \<not> isArray (propOf (propOf result ''issueCreate'') ''issues'')"
  shows "\<exists>cause. snd (handleCreateIssues this args) = Inl (OperationFailed ''create issues'' cause)"
proof -
  from assms(1,2) obtain u where
    v: "validateRequiredParams args [''issues''] = Inr u"
    and a: "isArray (arg args ''issues'')"
    and c: "call = createIssues (arg args ''issues'')"
    by (auto simp: handleCreateIssues_def fst_try_catch attempt_def invoke_def
        split: sum.splits if_splits)
  show ?thesis
    unfolding handleCreateIssues_def
    using invoke_fails [of client call result "createIssues_response", OF assms(3) createIssues_response_fails [OF assms(4)]]
    by (simp add: assms(1) v a c attempt_def)
qed

lemma handleBulkUpdateIssues_failed:
  assumes "verifyAuth this = Inr client"
    and "fst (handleBulkUpdateIssues this args) = [call]"
    and "client call = Inr result"
    and "\<not> truthy (propOf (propOf result ''issueUpdate'') ''success'')"
  shows "\<exists>cause. snd (handleBulkUpdateIssues this args) = Inl (OperationFailed ''update issues'' cause)"
proof -
  from assms(1,2) obtain u where
    v: "validateRequiredParams args [''issueIds'', ''update''] = Inr u"
    and a: "isArray (arg args ''issueIds'')"
    and c: "call = updateIssues (arg args ''issueIds'') (arg args ''update'')"
    by (auto simp: handleBulkUpdateIssues_def fst_try_catch attempt_def invoke_def
        split: sum.splits if_splits)
  show ?thesis
    unfolding handleBulkUpdateIssues_def
    using invoke_fails [of client call result "updateIssues_response args", OF assms(3) updateIssues_response_fails [OF assms(4)]]
    by (simp add: assms(1) v a c attempt_def)
qed

lemma handleDeleteIssue_failed:
  assumes "verifyAuth this = Inr client"
    and "fst (handleDeleteIssue this args) = [call]"
    and "client call = Inr result"
    and "\<not> truthy (propOf (propOf result ''issueDelete'') ''success'')"
  shows "\<exists>cause. snd (handleDeleteIssue this args) = Inl (OperationFailed ''delete issue'' cause)"
proof -
  from assms(1,2) obtain u where
    v: "validateRequiredParams args [''id''] = Inr u"
    and c: "call = deleteIssue (arg args ''id'')"
    by (auto simp: handleDeleteIssue_def fst_try_catch attempt_def invoke_def
        split: sum.splits)
  show ?thesis
    unfolding handleDeleteIssue_def
    using invoke_fails [of client call result "deleteIssue_response args", OF assms(3) deleteIssue_response_fails [OF assms(4)]]
    by (simp add: assms(1) v c attempt_def)
qed

lemma handleDeleteIssues_failed:
  assumes "verifyAuth this = Inr client"
    and "fst (handleDeleteIssues this args) = [call]"
    and "client call = Inr result"
    and "\<not> truthy (propOf (propOf result ''issueDelete'') ''success'')"
  shows "\<exists>cause. snd (handleDeleteIssues this args) = Inl (OperationFailed ''delete issues'' cause)"
proof -
  from assms(1,2) obtain u ids where
    v: "validateRequiredParams args [''ids''] = Inr u"
    and a: "arg args ''ids'' = JArr ids"
    and c: "call = deleteIssues (JArr ids)"
    by (auto simp: handleDeleteIssues_def fst_try_catch attempt_def invoke_def
        split: sum.splits jsval.splits)
  show ?thesis
    unfolding handleDeleteIssues_def
    using invoke_fails [of client call result "deleteIssues_response ids", OF assms(3) deleteIssues_response_fails [OF assms(4)]]
    by (simp add: assms(1) v a c attempt_def)
qed


lemma searchByIdentifier_response_fails:
  assumes "propOf (propOf result ''issues'') ''nodes'' = JUndefined
           \<or> propOf (propOf result ''issues'') ''nodes'' = JNull"
  shows "searchByIdentifier_response identifiers result = Inl TypeError"
  using assms getp_cases [of result "''issues''"]
    getp_cases [of "propOf result ''issues''" "''nodes''"]
  by (auto simp: searchByIdentifier_response_def and_then_def)

lemma handleSearchIssuesByIdentifier_failed:
  assumes "verifyAuth this = Inr client"
    and "fst (handleSearchIssuesByIdentifier this args) = [call]"
    and "client call = Inr result"
    and "propOf (propOf result ''issues'') ''nodes'' = JUndefined
         \<or> propOf (propOf result ''issues'') ''nodes'' = JNull"
  shows "\<exists>cause. snd (handleSearchIssuesByIdentifier this args) =
           Inl (OperationFailed ''search issues by identifier'' cause)"
proof -
  from assms(1,2) obtain u identifiers where
    v: "validateRequiredParams args [''identifiers''] = Inr u"
    and a: "arg args ''identifiers'' = JArr identifiers"
    and c: "call = searchIssues (JObj [(''identifier'', JObj [(''in'', JArr identifiers)])])
                     (JNum 100) JUndefined (JStr ''updatedAt'')"
    by (auto simp: handleSearchIssuesByIdentifier_def fst_try_catch attempt_def invoke_def
        split: sum.splits jsval.splits)
  have "searchByIdentifier_response identifiers result = Inl TypeError
        \<or> searchByIdentifier_response identifiers result = Inl (Error [])"
    using searchByIdentifier_response_fails [OF assms(4)] by simp
  from invoke_fails [of client call result "searchByIdentifier_response identifiers", OF assms(3) this]
  show ?thesis
    unfolding handleSearchIssuesByIdentifier_def
    by (simp add: assms(1) v a c attempt_def)
qed

text \<open>
  C2 (as amended). For the create-issue, create-issues, bulk-update, delete-issue and
  delete-issues handlers: whenever the handler made its remote call and the result's
  success flag is falsy (false or absent), and for create-issue also when the \<open>issue\<close>
  payload is absent, for create-issues when the \<open>issues\<close> list is absent, the handler
  throws the operation-failed condition naming its operation ("create issue",
  "create issues", "update issues", "delete issue", "delete issues") and returns no
  response. The search-by-identifier handler throws it, naming
  "search issues by identifier", when \<open>result.issues.nodes\<close> is absent. The
  search-issues handler checks neither a success flag nor a payload: it returns whatever
  the remote service answered as the structured result.
\<close>

theorem remote_failure_raises_operation_failed:
  assumes "verifyAuth this = Inr client"
    and "client call = Inr result"
  shows "(fst (handleCreateIssue this args) = [call]
          \<and> (\<not> truthy (propOf (propOf result ''issueCreate'') ''success'')
             \<or> \<not> truthy (propOf (propOf result ''issueCreate'') ''issue''))
          \<longrightarrow> (\<exists>cause. snd (handleCreateIssue this args) =
                         Inl (OperationFailed ''create issue'' cause)))
       \<and> (fst (handleCreateIssues this args) = [call]
          \<and> (\<not> truthy (propOf (propOf result ''issueCreate'') ''success'')
             \<or> \<not> isArray (propOf (propOf result ''issueCreate'') ''issues''))
          \<longrightarrow> (\<exists>cause. snd (handleCreateIssues this args) =
                         Inl (OperationFailed ''create issues'' cause)))
       \<and> (fst (handleBulkUpdateIssues this args) = [call]
          \<and> \<not> truthy (propOf (propOf result ''issueUpdate'') ''success'')
          \<longrightarrow> (\<exists>cause. snd (handleBulkUpdateIssues this args) =
                         Inl (OperationFailed ''update issues'' cause)))
       \<and> (fst (handleDeleteIssue this args) = [call]
          \<and> \<not> truthy (propOf (propOf result ''issueDelete'') ''success'')
          \<longrightarrow> (\<exists>cause. snd (handleDeleteIssue this args) =
                         Inl (OperationFailed ''delete issue'' cause)))
       \<and> (fst (handleDeleteIssues this args) = [call]
          \<and> \<not> truthy (propOf (propOf result ''issueDelete'') ''success'')
          \<longrightarrow> (\<exists>cause. snd (handleDeleteIssues this args) =
                         Inl (OperationFailed ''delete issues'' cause)))
       \<and> (fst (handleSearchIssuesByIdentifier this args) = [call]
          \<and> (propOf (propOf result ''issues'') ''nodes'' = JUndefined
             \<or> propOf (propOf result ''issues'') ''nodes'' = JNull)
          \<longrightarrow> (\<exists>cause. snd (handleSearchIssuesByIdentifier this args) =
                         Inl (OperationFailed ''search issues by identifier'' cause)))"
  using handleCreateIssue_failed [OF assms(1) _ assms(2)]
    handleCreateIssues_failed [OF assms(1) _ assms(2)]
    handleBulkUpdateIssues_failed [OF assms(1) _ assms(2)]
    handleDeleteIssue_failed [OF assms(1) _ assms(2)]
    handleDeleteIssues_failed [OF assms(1) _ assms(2)]
    handleSearchIssuesByIdentifier_failed [OF assms(1) _ assms(2)]
  by blast

theorem remote_failure_raises_operation_failed_witness:
  "verifyAuth (answering (JObj [(''issueCreate'', JObj [(''success'', JBool True)])]))
     = Inr (\<lambda>call. Inr (JObj [(''issueCreate'', JObj [(''success'', JBool True)])]))
   \<and> truthy (propOf (propOf (JObj [(''issueCreate'', JObj [(''success'', JBool True)])])
                ''issueCreate'') ''issue'') = False
   \<and> handleCreateIssue (answering (JObj [(''issueCreate'', JObj [(''success'', JBool True)])]))
        [(''title'', JStr ''t''), (''description'', JStr ''d''), (''teamId'', JStr ''team-1'')]
       = ([createIssue (JObj [(''title'', JStr ''t''), (''description'', JStr ''d''),
                              (''teamId'', JStr ''team-1'')])],
          Inl (OperationFailed ''create issue'' (Error ''Failed to create issue'')))
   \<and> truthy (propOf (propOf (JObj [(''issueDelete'', JObj [(''success'', JBool False)])])
                ''issueDelete'') ''success'') = False
   \<and> handleDeleteIssues (answering (JObj [(''issueDelete'', JObj [(''success'', JBool False)])]))
        [(''ids'', JArr [JStr ''ENG-1'', JStr ''ENG-2''])]
       = ([deleteIssues (JArr [JStr ''ENG-1'', JStr ''ENG-2''])],
          Inl (OperationFailed ''delete issues'' (Error ''Failed to delete issues'')))"
  using remote_failure_raises_operation_failed
    [of "answering (JObj [(''issueCreate'', JObj [(''success'', JBool True)])])"
        "\<lambda>call. Inr (JObj [(''issueCreate'', JObj [(''success'', JBool True)])])"
        "createIssue (JObj [(''title'', JStr ''t''), (''description'', JStr ''d''),
                            (''teamId'', JStr ''team-1'')])"
        "JObj [(''issueCreate'', JObj [(''success'', JBool True)])]"
        "[(''title'', JStr ''t''), (''description'', JStr ''d''), (''teamId'', JStr ''team-1'')]"]
    remote_failure_raises_operation_failed
    [of "answering (JObj [(''issueDelete'', JObj [(''success'', JBool False)])])"
        "\<lambda>call. Inr (JObj [(''issueDelete'', JObj [(''success'', JBool False)])])"
        "deleteIssues (JArr [JStr ''ENG-1'', JStr ''ENG-2''])"
        "JObj [(''issueDelete'', JObj [(''success'', JBool False)])]"
        "[(''ids'', JArr [JStr ''ENG-1'', JStr ''ENG-2''])]"]
  by (simp add: verifyAuth_def validateRequiredParams_def arg_def
      handleCreateIssue_def handleDeleteIssues_def attempt_def invoke_def and_then_def
      try_catch_def handleError_def createIssue_response_def deleteIssues_response_def)

text \<open>
  The claim as first stated, for every handler, fails on the search-issues handler: when
  the remote service answers \<open>{success: false}\<close>, a result that carries a false success
  flag and no payload, the handler throws nothing and returns that result as a
  successful structured response.
\<close>

theorem search_unchecked_result_counterexample:
  "handleSearchIssues (answering (JObj [(''success'', JBool False)])) []
     = ([searchIssues (JObj []) (JNum 50) JUndefined (JStr ''updatedAt'')],
        Inr (JsonResponse (JObj [(''success'', JBool False)])))"
  by (simp add: handleSearchIssues_auth [OF verifyAuth_answering] searchIssues_call_def
      searchFilter_def arg_def js_or_def createJsonResponse_def)

end
